theory Spec2Isabelle
  imports Main
begin

section \<open>Python values and exceptions\<close>

text \<open>
  The values that flow through the authentication code are dynamically typed: a database
  row is a tuple, a missing row is \<open>None\<close>, the error sentinel of \<open>safe_query\<close> is a
  string, and the claims of a token are JSON values. One datatype covers them.
\<close>

datatype pyval =
    PNone
  | PStr string
  | PInt int
  | PTuple "pyval list"
  | PList "pyval list"

text \<open>Python truthiness, as used by every \<open>if not x\<close> of the source.\<close>

fun truthy :: "pyval \<Rightarrow> bool" where
  "truthy PNone = False"
| "truthy (PStr s) = (s \<noteq> [])"
| "truthy (PInt i) = (i \<noteq> 0)"
| "truthy (PTuple xs) = (xs \<noteq> [])"
| "truthy (PList xs) = (xs \<noteq> [])"

text \<open>The exception classes of the source, and those of Python and its libraries that
  the modelled paths can raise.\<close>

datatype exc =
    AuthValidationError
  | UserAlreadyExistsError
  | DatabaseOperationError
  | InvalidCredentialsError
  | TokenConfigurationError
  | IndexError
  | TypeError
  | DataError
  | InterfaceError
  | LibraryError string

text \<open>
  What a route hands to the HTTP boundary when it does not return: an \<open>HTTPException\<close>
  with its status code and detail, or an exception nobody caught, which the framework
  answers with status 500.
\<close>

datatype failure = HTTPException nat string | Unhandled exc

fun status_code :: "failure \<Rightarrow> nat" where
  "status_code (HTTPException c d) = c"
| "status_code (Unhandled e) = 500"

text \<open>\<open>x[i]\<close> for a non-negative index: a string yields the one-character string, a
  tuple or list its element, out of range raises \<open>IndexError\<close>.\<close>

fun subscript :: "pyval \<Rightarrow> nat \<Rightarrow> exc + pyval" where
  "subscript (PStr s) i = (if i < length s then Inr (PStr [s ! i]) else Inl IndexError)"
| "subscript (PTuple xs) i = (if i < length xs then Inr (xs ! i) else Inl IndexError)"
| "subscript (PList xs) i = (if i < length xs then Inr (xs ! i) else Inl IndexError)"
| "subscript PNone i = Inl TypeError"
| "subscript (PInt n) i = Inl TypeError"

text \<open>Sequencing of calls that may raise: the first exception ends the computation.\<close>

fun bind_exc :: "exc + 'a \<Rightarrow> ('a \<Rightarrow> exc + 'b) \<Rightarrow> exc + 'b" where
  "bind_exc (Inl e) f = Inl e"
| "bind_exc (Inr x) f = f x"

text \<open>A dictionary is an association list; \<open>d.get(k)\<close> is \<open>None\<close> on a missing key.\<close>

definition dict_get :: "(string \<times> pyval) list \<Rightarrow> string \<Rightarrow> pyval" where
  "dict_get d k = (case map_of d k of None \<Rightarrow> PNone | Some v \<Rightarrow> v)"


section \<open>The signed-token library\<close>

text \<open>
  The source signs and verifies with the PyJWT library (\<open>jwt.encode\<close>, \<open>jwt.decode\<close>),
  which is not part of the repository. It is modelled symbolically, with ideal
  cryptography: a token string either is no well-formed signed token at all, or it
  carries a header algorithm, a payload and a signature, and the signature verifies
  under exactly the key it was made with. A forged or altered signature is a signature
  under some other key.

  Clock readings and time claims are whole seconds since the epoch: the library
  truncates a \<open>datetime\<close> to whole seconds when it encodes a time claim, and for an
  integer claim \<open>t\<close> the tests \<open>t \<le> now\<close> and \<open>t > now\<close> have the same outcome for
  \<open>now\<close> and for \<open>now\<close> rounded down.

  After the signature the library validates the registered claims in this order:
  \<open>iat\<close>, \<open>nbf\<close>, \<open>exp\<close>, then \<open>aud\<close> (\<open>decode_access_token\<close> names no audience and
  no issuer). The type checks on \<open>sub\<close> and \<open>jti\<close> that the newest releases add after
  these are not modelled. A payload holds \<open>null\<close>, strings, integers and arrays; JSON
  fractions, booleans and nested objects are not represented.
\<close>

datatype token =
    Malformed string
  | JWS (jws_alg: string) (jws_key: string) (jws_payload: "(string \<times> pyval) list")

text \<open>
  What \<open>jwt.decode\<close> raises. All but the last are subclasses of the library's
  \<open>InvalidTokenError\<close>; \<open>NotTokenError e\<close> is an exception \<open>e\<close> of Python itself
  that the library lets through.
\<close>

datatype jwt_error =
    ExpiredSignatureError
  | InvalidSignatureError
  | InvalidAlgorithmError
  | DecodeError
  | ImmatureSignatureError
  | InvalidIssuedAtError
  | InvalidAudienceError
  | NotTokenError exc

text \<open>JSON serialisation turns a tuple into an array, which decodes as a list.\<close>

fun to_json :: "pyval \<Rightarrow> pyval" where
  "to_json PNone = PNone"
| "to_json (PStr s) = PStr s"
| "to_json (PInt i) = PInt i"
| "to_json (PTuple xs) = PList (map to_json xs)"
| "to_json (PList xs) = PList (map to_json xs)"

definition jwt_encode :: "(string \<times> pyval) list \<Rightarrow> string \<Rightarrow> string \<Rightarrow> token" where
  "jwt_encode payload key algorithm = JWS algorithm key (map (\<lambda>(k, v). (k, to_json v)) payload)"

text \<open>
  The library reads a time claim with Python's \<open>int(v)\<close> and catches \<open>ValueError\<close>
  only. An integer is itself; \<open>None\<close> and arrays raise \<open>TypeError\<close>; what \<open>int\<close> makes
  of a string is the parameter \<open>int_of_str\<close>: the integer the string denotes, or
  \<open>None\<close> where \<open>int\<close> raises \<open>ValueError\<close>.
\<close>

datatype int_result = IntValue int | ValueErr | TypeErr

fun py_int :: "(string \<Rightarrow> int option) \<Rightarrow> pyval \<Rightarrow> int_result" where
  "py_int int_of_str (PInt i) = IntValue i"
| "py_int int_of_str (PStr s) = (case int_of_str s of Some i \<Rightarrow> IntValue i | None \<Rightarrow> ValueErr)"
| "py_int int_of_str PNone = TypeErr"
| "py_int int_of_str (PTuple xs) = TypeErr"
| "py_int int_of_str (PList xs) = TypeErr"

text \<open>The claim validators; \<open>None\<close> means the check passes.\<close>

definition validate_iat :: "(string \<Rightarrow> int option) \<Rightarrow> (string \<times> pyval) list \<Rightarrow> int \<Rightarrow> jwt_error option" where
  "validate_iat int_of_str payload now =
     (case map_of payload ''iat'' of
        None \<Rightarrow> None
      | Some v \<Rightarrow>
          (case py_int int_of_str v of
             IntValue iat \<Rightarrow> if iat > now then Some ImmatureSignatureError else None
           | ValueErr \<Rightarrow> Some InvalidIssuedAtError
           | TypeErr \<Rightarrow> Some (NotTokenError TypeError)))"

definition validate_nbf :: "(string \<Rightarrow> int option) \<Rightarrow> (string \<times> pyval) list \<Rightarrow> int \<Rightarrow> jwt_error option" where
  "validate_nbf int_of_str payload now =
     (case map_of payload ''nbf'' of
        None \<Rightarrow> None
      | Some v \<Rightarrow>
          (case py_int int_of_str v of
             IntValue nbf \<Rightarrow> if nbf > now then Some ImmatureSignatureError else None
           | ValueErr \<Rightarrow> Some DecodeError
           | TypeErr \<Rightarrow> Some (NotTokenError TypeError)))"

definition validate_exp :: "(string \<Rightarrow> int option) \<Rightarrow> (string \<times> pyval) list \<Rightarrow> int \<Rightarrow> jwt_error option" where
  "validate_exp int_of_str payload now =
     (case map_of payload ''exp'' of
        None \<Rightarrow> None
      | Some v \<Rightarrow>
          (case py_int int_of_str v of
             IntValue exp \<Rightarrow> if exp \<le> now then Some ExpiredSignatureError else None
           | ValueErr \<Rightarrow> Some DecodeError
           | TypeErr \<Rightarrow> Some (NotTokenError TypeError)))"

text \<open>No audience is given to \<open>jwt.decode\<close>, so a token that carries a truthy \<open>aud\<close>
  is refused.\<close>

definition validate_aud :: "(string \<times> pyval) list \<Rightarrow> jwt_error option" where
  "validate_aud payload =
     (case map_of payload ''aud'' of
        None \<Rightarrow> None
      | Some v \<Rightarrow> if truthy v then Some InvalidAudienceError else None)"

text \<open>\<open>jwt.decode(token, key, algorithms, options={"verify_exp": True})\<close> at clock
  reading \<open>now\<close>: well-formedness, the algorithm, the signature, then the claims.\<close>

definition jwt_decode :: "(string \<Rightarrow> int option) \<Rightarrow> token \<Rightarrow> string \<Rightarrow> string list \<Rightarrow> int \<Rightarrow> jwt_error + (string \<times> pyval) list" where
  "jwt_decode int_of_str tok key algorithms now =
     (case tok of
        Malformed s \<Rightarrow> Inl DecodeError
      | JWS alg k payload \<Rightarrow>
          if alg \<notin> set algorithms then Inl InvalidAlgorithmError
          else if k \<noteq> key then Inl InvalidSignatureError
          else (case validate_iat int_of_str payload now of
                  Some e \<Rightarrow> Inl e
                | None \<Rightarrow>
                    (case validate_nbf int_of_str payload now of
                       Some e \<Rightarrow> Inl e
                     | None \<Rightarrow>
                         (case validate_exp int_of_str payload now of
                            Some e \<Rightarrow> Inl e
                          | None \<Rightarrow>
                              (case validate_aud payload of
                                 Some e \<Rightarrow> Inl e
                               | None \<Rightarrow> Inr payload)))))"


section \<open>Access tokens (src/jwt\_auth/jwt\_auth.py)\<close>

definition ACCESS_TOKEN_EXPIRE_MINUTES :: int where
  "ACCESS_TOKEN_EXPIRE_MINUTES = 15"

definition REFRESH_TOKEN_TTL_SECONDS :: int where
  "REFRESH_TOKEN_TTL_SECONDS = 60 * 60 * 24 * 14"

text \<open>
  \<open>create_access_token\<close> reads the clock twice, once for \<open>iat\<close> and once more for
  \<open>exp\<close>; \<open>now_iat\<close> and \<open>now_exp\<close> are the two readings, in that order.
\<close>

definition create_access_token :: "string \<Rightarrow> int \<Rightarrow> int \<Rightarrow> pyval \<Rightarrow> pyval \<Rightarrow> token" where
  "create_access_token JWT_KEY now_iat now_exp user_id role =
     jwt_encode
       [(''sub'', user_id),
        (''role'', role),
        (''iat'', PInt now_iat),
        (''exp'', PInt (now_exp + ACCESS_TOKEN_EXPIRE_MINUTES * 60)),
        (''type'', PStr ''access'')]
       JWT_KEY ''HS256''"

text \<open>
  \<open>decode_access_token(token, id=True, role=False)\<close>. \<open>ExpiredSignatureError\<close> is
  caught first; every other \<open>InvalidTokenError\<close> gives the invalid-token answer; an
  exception that is neither leaves the function uncaught. The function returns the
  subject when \<open>id\<close> is set, else the role when \<open>role\<close> is set, else falls off its end
  and returns \<open>None\<close>.
\<close>

definition decode_access_token :: "(string \<Rightarrow> int option) \<Rightarrow> string \<Rightarrow> int \<Rightarrow> token \<Rightarrow> bool \<Rightarrow> bool \<Rightarrow> failure + pyval" where
  "decode_access_token int_of_str JWT_KEY now tok id_flag role_flag =
     (case jwt_decode int_of_str tok JWT_KEY [''HS256''] now of
        Inl ExpiredSignatureError \<Rightarrow> Inl (HTTPException 401 ''Expired access token'')
      | Inl (NotTokenError e) \<Rightarrow> Inl (Unhandled e)
      | Inl other \<Rightarrow> Inl (HTTPException 401 ''Invalid access token'')
      | Inr payload \<Rightarrow>
          (let user_id = dict_get payload ''sub'';
               user_role = dict_get payload ''role''
           in if \<not> truthy user_id then Inl (HTTPException 401 ''Invalid access token'')
              else if id_flag then Inr user_id
              else if role_flag then Inr user_role
              else Inr PNone))"


section \<open>The session store (Redis)\<close>

text \<open>
  The key-value store with expiry that \<open>redis_server/client.py\<close> connects to. An entry
  holds its value and the instant at which the store drops it; \<open>SETEX\<close> at store time
  \<open>now\<close> with a time-to-live \<open>ttl\<close> sets that instant to \<open>now + ttl\<close>, and a key whose
  instant has been reached reads as absent. The client is created with
  \<open>decode_responses=True\<close>, so values are strings.
\<close>

type_synonym redis = "string \<Rightarrow> (string \<times> int) option"

fun dec_nat :: "nat \<Rightarrow> string" where
  "dec_nat n = (if n < 10 then [char_of (48 + n)] else dec_nat (n div 10) @ [char_of (48 + n mod 10)])"

declare dec_nat.simps [simp del]

definition dec_int :: "int \<Rightarrow> string" where
  "dec_int i = (if i < 0 then CHR ''-'' # dec_nat (nat (- i)) else dec_nat (nat i))"

text \<open>The client sends a string as it is and an integer in decimal, and refuses
  \<open>None\<close> and sequences with \<open>DataError\<close>.\<close>

fun redis_encode :: "pyval \<Rightarrow> exc + string" where
  "redis_encode (PStr s) = Inr s"
| "redis_encode (PInt i) = Inr (dec_int i)"
| "redis_encode PNone = Inl DataError"
| "redis_encode (PTuple xs) = Inl DataError"
| "redis_encode (PList xs) = Inl DataError"

definition redis_get :: "redis \<Rightarrow> int \<Rightarrow> string \<Rightarrow> string option" where
  "redis_get r now k =
     (case r k of None \<Rightarrow> None | Some (v, expires) \<Rightarrow> if now < expires then Some v else None)"

definition redis_setex :: "redis \<Rightarrow> int \<Rightarrow> string \<Rightarrow> int \<Rightarrow> pyval \<Rightarrow> exc + redis" where
  "redis_setex r now k ttl v =
     (case redis_encode v of Inl e \<Rightarrow> Inl e | Inr s \<Rightarrow> Inr (r(k \<mapsto> (s, now + ttl))))"

definition redis_delete :: "redis \<Rightarrow> string \<Rightarrow> redis" where
  "redis_delete r k = r(k := None)"

text \<open>Truthiness of what \<open>get\<close> returns, a string or \<open>None\<close>.\<close>

fun truthy_opt :: "string option \<Rightarrow> bool" where
  "truthy_opt None = False"
| "truthy_opt (Some s) = (s \<noteq> [])"


section \<open>Refresh tokens\<close>

text \<open>\<open>store_refresh_token\<close> of src/jwt\_auth/jwt\_auth.py: an unconditional \<open>setex\<close>.\<close>

definition store_refresh_token :: "redis \<Rightarrow> int \<Rightarrow> string \<Rightarrow> pyval \<Rightarrow> exc + redis" where
  "store_refresh_token redis_client now refresh_token user_id =
     redis_setex redis_client now (''refresh:'' @ refresh_token) REFRESH_TOKEN_TTL_SECONDS user_id"

text \<open>\<open>store_refresh_token\<close> of src/jwt\_auth.py, the module at the root of the source
  tree: \<open>setex\<close> only if \<open>get\<close> returns nothing truthy.\<close>

definition store_refresh_token_root :: "redis \<Rightarrow> int \<Rightarrow> string \<Rightarrow> pyval \<Rightarrow> exc + redis" where
  "store_refresh_token_root redis_client now refresh_token user_id =
     (if \<not> truthy_opt (redis_get redis_client now (''refresh:'' @ refresh_token))
      then redis_setex redis_client now (''refresh:'' @ refresh_token) REFRESH_TOKEN_TTL_SECONDS user_id
      else Inr redis_client)"

definition get_id_from_token :: "redis \<Rightarrow> int \<Rightarrow> string \<Rightarrow> string option" where
  "get_id_from_token redis_client now refresh_token =
     redis_get redis_client now (''refresh:'' @ refresh_token)"


section \<open>Module initialisation\<close>

text \<open>
  Importing src/jwt\_auth/jwt\_auth.py reads \<open>JWT_KEY\<close> from the environment
  (\<open>os.getenv\<close>: a string or \<open>None\<close>) and raises \<open>TokenConfigurationError\<close> when it is
  missing or empty. Importing src/jwt\_auth.py reads the same variable and checks nothing.
\<close>

definition jwt_auth_init :: "string option \<Rightarrow> exc + string" where
  "jwt_auth_init env_JWT_KEY =
     (case env_JWT_KEY of
        None \<Rightarrow> Inl TokenConfigurationError
      | Some k \<Rightarrow> if k = [] then Inl TokenConfigurationError else Inr k)"

definition jwt_auth_root_init :: "string option \<Rightarrow> exc + string option" where
  "jwt_auth_root_init env_JWT_KEY = Inr env_JWT_KEY"

text \<open>\<open>create_access_token\<close> of src/jwt\_auth.py (no role claim), with the key as that
  module holds it. Signing with \<open>None\<close> for a key is a \<open>TypeError\<close> in the library; an
  empty string is a key like any other.\<close>

definition create_access_token_root :: "string option \<Rightarrow> int \<Rightarrow> int \<Rightarrow> pyval \<Rightarrow> exc + token" where
  "create_access_token_root JWT_KEY now_iat now_exp user_id =
     (case JWT_KEY of
        None \<Rightarrow> Inl TypeError
      | Some k \<Rightarrow>
          Inr (jwt_encode
                 [(''sub'', user_id),
                  (''iat'', PInt now_iat),
                  (''exp'', PInt (now_exp + ACCESS_TOKEN_EXPIRE_MINUTES * 60)),
                  (''type'', PStr ''access'')]
                 k ''HS256''))"


section \<open>The relational store (src/db.py)\<close>

text \<open>
  The connection pool and the database behind it are outside the source; what a call of
  \<open>safe_query\<close> meets there is a parameter. Either \<open>pool.getconn()\<close> raises and
  \<open>conn\<close> stays \<open>None\<close> (\<open>DbNoConnection\<close>), or a connection is obtained
  (\<open>DbRan commit_raises r\<close>): then \<open>r\<close> is what became of the statement (opening the
  cursor, executing or fetching raised; it completed without a result set; it yielded
  rows), and \<open>commit_raises\<close> tells whether \<open>conn.commit()\<close> raises on that
  connection, as it does on one that is closed or lost. Closing the cursor and handing
  the connection back to the pool are taken not to raise.
\<close>

datatype statement_result = StmtError | StmtNoResult | StmtRows "pyval list list"

datatype db_result = DbNoConnection | DbRan bool statement_result

type_synonym database = "string \<Rightarrow> pyval list option \<Rightarrow> db_result"

text \<open>With truthy \<open>params\<close> the statement runs with them, else without.\<close>

definition execute :: "database \<Rightarrow> string \<Rightarrow> pyval list option \<Rightarrow> db_result" where
  "execute pool query params =
     (case params of Some (p # ps) \<Rightarrow> pool query params | _ \<Rightarrow> pool query None)"

text \<open>
  What the \<open>try\<close> and \<open>except\<close> blocks of \<open>safe_query\<close> return once a connection
  is there: every exception ends in the sentinel string, also the one a fetch raises on
  a statement without a result set.
\<close>

definition safe_query_try :: "statement_result \<Rightarrow> string option \<Rightarrow> pyval" where
  "safe_query_try r fetch =
     (case r of
        StmtError \<Rightarrow> PStr ''error in query execution''
      | StmtNoResult \<Rightarrow>
          if fetch = Some ''one'' \<or> fetch = Some ''all''
          then PStr ''error in query execution'' else PNone
      | StmtRows rows \<Rightarrow>
          if fetch = Some ''one'' then (case rows of [] \<Rightarrow> PNone | r # rest \<Rightarrow> PTuple r)
          else if fetch = Some ''all'' then PList (map PTuple rows)
          else PNone)"

text \<open>
  \<open>safe_query(query, params, fetch, insert)\<close>. The \<open>finally\<close> block runs after the
  value to return is fixed: with a connection and \<open>insert=True\<close> it commits, outside
  the \<open>try\<close>, so an exception of \<open>commit\<close> leaves \<open>safe_query\<close> in place of the value.
\<close>

definition safe_query :: "database \<Rightarrow> string \<Rightarrow> pyval list option \<Rightarrow> string option \<Rightarrow> bool \<Rightarrow> exc + pyval" where
  "safe_query pool query params fetch insert_flag =
     (case execute pool query params of
        DbNoConnection \<Rightarrow> Inr (PStr ''error in query execution'')
      | DbRan commit_raises r \<Rightarrow>
          if insert_flag \<and> commit_raises then Inl InterfaceError
          else Inr (safe_query_try r fetch))"


section \<open>Users and passwords (src/jwt\_auth/user\_auth.py)\<close>

text \<open>
  The module-level objects the routes share: the connection pool, the password hashing
  context (the passlib library, a parameter: its \<open>hash\<close> and \<open>verify\<close> may raise) and
  the signing key.
\<close>

record app =
  app_pool :: database
  app_pwd_hash :: "string \<Rightarrow> exc + string"
  app_pwd_verify :: "string \<Rightarrow> pyval \<Rightarrow> exc + bool"
  app_JWT_KEY :: string

record LoginRequest =
  login_email :: string
  login_password :: string

record RegisterRequest =
  reg_email :: string
  reg_phone :: string
  reg_password :: string
  reg_first_name :: string
  reg_last_name :: string
  reg_city :: string
  reg_street :: string
  reg_state :: string
  reg_zip_code :: string

text \<open>The dictionary \<open>check_user_by_email\<close> builds; its keys are fixed.\<close>

record user =
  user_id :: pyval
  user_email :: pyval
  user_pass_hash :: pyval
  user_first_name :: pyval
  user_last_name :: pyval
  user_phone :: pyval
  user_role :: pyval

definition hash_password :: "app \<Rightarrow> string \<Rightarrow> exc + string" where
  "hash_password a password =
     (if password = [] then Inl AuthValidationError else app_pwd_hash a password)"

definition verify_password :: "app \<Rightarrow> string \<Rightarrow> pyval \<Rightarrow> exc + bool" where
  "verify_password a password hashed_password =
     (if password = [] \<or> \<not> truthy hashed_password then Inl AuthValidationError
      else app_pwd_verify a password hashed_password)"

definition SELECT_USER_BY_EMAIL :: string where
  "SELECT_USER_BY_EMAIL =
     ''SELECT id,email,password_hash,first_name,last_name,phone,role FROM users WHERE email = %s''"

definition SELECT_ROLE_BY_ID :: string where
  "SELECT_ROLE_BY_ID = ''SELECT role FROM users where id = %s''"

text \<open>The statement of \<open>create_user\<close>, its line breaks and indentation written as
  single spaces.\<close>

definition INSERT_USER :: string where
  "INSERT_USER =
     ''INSERT INTO users (email, phone, password_hash, first_name, last_name, created_at, role, '' @
     ''street, city, state, zip_code) VALUES (%s, %s, %s, %s, %s, NOW(),'' @ [CHR 0x27] @ ''client'' @
     [CHR 0x27] @ '',%s,%s,%s,%s) ON CONFLICT (email) DO NOTHING RETURNING id;''"

definition check_user_by_email :: "app \<Rightarrow> string \<Rightarrow> exc + user option" where
  "check_user_by_email a email =
     bind_exc (safe_query (app_pool a) SELECT_USER_BY_EMAIL (Some [PStr email]) (Some ''one'') False)
       (\<lambda>result.
          if truthy result then
            bind_exc (subscript result 0) (\<lambda>r0.
            bind_exc (subscript result 1) (\<lambda>r1.
            bind_exc (subscript result 2) (\<lambda>r2.
            bind_exc (subscript result 3) (\<lambda>r3.
            bind_exc (subscript result 4) (\<lambda>r4.
            bind_exc (subscript result 5) (\<lambda>r5.
            bind_exc (subscript result 6) (\<lambda>r6.
              Inr (Some \<lparr>user_id = r0, user_email = r1, user_pass_hash = r2,
                         user_first_name = r3, user_last_name = r4, user_phone = r5,
                         user_role = r6\<rparr>))))))))
          else Inr None)"

record created_user =
  created :: bool
  created_user_id :: pyval

text \<open>
  \<open>create_user\<close>: the password is hashed while the arguments of \<open>safe_query\<close> are
  evaluated, inside the \<open>try\<close>, so whatever \<open>hash_password\<close> raises is re-raised as
  \<open>DatabaseOperationError\<close> and the query is not run; so is whatever \<open>safe_query\<close>
  raises. \<open>row[0]\<close> is read after the \<open>try\<close>.
\<close>

definition create_user :: "app \<Rightarrow> RegisterRequest \<Rightarrow> exc + created_user" where
  "create_user a credentials =
     (case hash_password a (reg_password credentials) of
        Inl e \<Rightarrow> Inl DatabaseOperationError
      | Inr h \<Rightarrow>
          (case safe_query (app_pool a) INSERT_USER
                  (Some [PStr (reg_email credentials),
                         PStr (reg_phone credentials),
                         PStr h,
                         PStr (reg_first_name credentials),
                         PStr (reg_last_name credentials),
                         PStr (reg_street credentials),
                         PStr (reg_city credentials),
                         PStr (reg_state credentials),
                         PStr (reg_zip_code credentials)])
                  (Some ''one'') True of
             Inl e \<Rightarrow> Inl DatabaseOperationError
           | Inr row \<Rightarrow>
               if \<not> truthy row then Inl UserAlreadyExistsError
               else bind_exc (subscript row 0)
                      (\<lambda>r0. Inr \<lparr>created = True, created_user_id = r0\<rparr>)))"


section \<open>The routes (src/jwt\_auth/auth\_router.py)\<close>

text \<open>
  What a request reads from outside the program while it runs: the two clock readings of
  \<open>create_access_token\<close>, the store's own time, and the string
  \<open>secrets.token_urlsafe(32)\<close> draws in \<open>create_refresh_token\<close>.
\<close>

record effects =
  clock_iat :: int
  clock_exp :: int
  cache_time :: int
  token_urlsafe :: string

record cookie =
  cookie_key :: string
  cookie_value :: string
  cookie_httponly :: bool
  cookie_secure :: bool
  cookie_samesite :: string
  cookie_path :: string

record login_body =
  body_access_token :: token
  body_role :: pyval
  body_first_name :: pyval
  body_last_name :: pyval
  body_status :: string

record refresh_body =
  refresh_access_token :: token
  refresh_token_type :: string

definition create_refresh_token :: "effects \<Rightarrow> string" where
  "create_refresh_token fx = token_urlsafe fx"

text \<open>
  \<open>login\<close>. Only \<open>InvalidCredentialsError\<close> is caught and turned into the 401; any
  other exception of \<open>check_user_by_email\<close> or \<open>verify_password\<close> leaves the route
  uncaught. The route returns the body and the cookie it sets, and the session store
  after it.
\<close>

definition login :: "app \<Rightarrow> effects \<Rightarrow> redis \<Rightarrow> LoginRequest \<Rightarrow> (failure + login_body \<times> cookie) \<times> redis" where
  "login a fx cache credentials =
     (case check_user_by_email a (login_email credentials) of
        Inl e \<Rightarrow> (Inl (Unhandled e), cache)
      | Inr None \<Rightarrow> (Inl (HTTPException 401 ''Invalid email or password''), cache)
      | Inr (Some u) \<Rightarrow>
          (case verify_password a (login_password credentials) (user_pass_hash u) of
             Inl e \<Rightarrow> (Inl (Unhandled e), cache)
           | Inr False \<Rightarrow> (Inl (HTTPException 401 ''Invalid email or password''), cache)
           | Inr True \<Rightarrow>
               (let access_token = create_access_token (app_JWT_KEY a) (clock_iat fx) (clock_exp fx)
                                     (user_id u) (user_role u);
                    refresh_token = create_refresh_token fx
                in case store_refresh_token cache (cache_time fx) refresh_token (user_id u) of
                     Inl e \<Rightarrow> (Inl (Unhandled e), cache)
                   | Inr cache' \<Rightarrow>
                       (Inr (\<lparr>body_access_token = access_token,
                               body_role = user_role u,
                               body_first_name = user_first_name u,
                               body_last_name = user_last_name u,
                               body_status = ''logged in''\<rparr>,
                             \<lparr>cookie_key = ''refresh_token'',
                               cookie_value = refresh_token,
                               cookie_httponly = True,
                               cookie_secure = True,
                               cookie_samesite = ''strict'',
                               cookie_path = ''/auth''\<rparr>),
                        cache'))))"

definition register :: "app \<Rightarrow> RegisterRequest \<Rightarrow> failure + string" where
  "register a credentials =
     (case create_user a credentials of
        Inl UserAlreadyExistsError \<Rightarrow> Inl (HTTPException 409 ''Email already registered'')
      | Inl DatabaseOperationError \<Rightarrow> Inl (HTTPException 500 ''Internal server error'')
      | Inl e \<Rightarrow> Inl (Unhandled e)
      | Inr result \<Rightarrow> Inr ''user created'')"

text \<open>\<open>logout\<close>: the status, whether the cookie is deleted, and the store after it.\<close>

definition logout :: "redis \<Rightarrow> string option \<Rightarrow> string \<times> bool \<times> redis" where
  "logout cache refresh_token =
     (case refresh_token of
        None \<Rightarrow> (''logged out'', False, cache)
      | Some t \<Rightarrow>
          if t \<noteq> [] then (''logged out'', True, redis_delete cache (''refresh:'' @ t))
          else (''logged out'', False, cache))"

text \<open>
  \<open>refresh\<close>: the cookie is a string or \<open>None\<close>. The role is looked up before the user
  id is tested, with whatever \<open>get_id_from_token\<close> returned as the parameter. The only
  call on the session store is the \<open>get\<close>; the route returns the store as it leaves it.
\<close>

definition refresh :: "app \<Rightarrow> effects \<Rightarrow> redis \<Rightarrow> string option \<Rightarrow> (failure + refresh_body) \<times> redis" where
  "refresh a fx cache refresh_token =
     (case refresh_token of
        None \<Rightarrow> (Inl (HTTPException 401 ''Authentication required''), cache)
      | Some t \<Rightarrow>
          if t = [] then (Inl (HTTPException 401 ''Authentication required''), cache)
          else
            (let uid = (case get_id_from_token cache (cache_time fx) t of
                          None \<Rightarrow> PNone | Some s \<Rightarrow> PStr s)
             in case safe_query (app_pool a) SELECT_ROLE_BY_ID (Some [uid]) (Some ''one'') False of
                  Inl e \<Rightarrow> (Inl (Unhandled e), cache)
                | Inr role \<Rightarrow>
                    if \<not> truthy uid \<or> \<not> truthy role
                    then (Inl (HTTPException 401 ''Authentication required''), cache)
                    else (Inr \<lparr>refresh_access_token =
                                 create_access_token (app_JWT_KEY a) (clock_iat fx) (clock_exp fx)
                                   uid role,
                               refresh_token_type = ''bearer''\<rparr>,
                          cache)))"


section \<open>The vocabulary of the specification\<close>

text \<open>
  The conditions named for \<open>validate\<close>, on the symbolic tokens: the signature verifies
  under the service's key (a string that is no signed token has no signature that
  verifies); the expiry instant, an \<open>exp\<close> claim that reads as an integer, has passed;
  the subject claim is absent. Beside them, what the library asks of the two other time
  claims before it looks at the expiry: \<open>iat\<close> and \<open>nbf\<close>, where present, read as
  integers that are not in the future.
\<close>

definition signature_verifies :: "string \<Rightarrow> token \<Rightarrow> bool" where
  "signature_verifies key tok =
     (case tok of Malformed s \<Rightarrow> False | JWS alg k payload \<Rightarrow> alg = ''HS256'' \<and> k = key)"

definition expiry_passed :: "(string \<Rightarrow> int option) \<Rightarrow> int \<Rightarrow> token \<Rightarrow> bool" where
  "expiry_passed int_of_str now tok =
     (case tok of
        Malformed s \<Rightarrow> False
      | JWS alg k payload \<Rightarrow>
          (case map_of payload ''exp'' of
             None \<Rightarrow> False
           | Some v \<Rightarrow> (case py_int int_of_str v of IntValue e \<Rightarrow> e \<le> now | _ \<Rightarrow> False)))"

definition claim_not_in_future :: "(string \<Rightarrow> int option) \<Rightarrow> int \<Rightarrow> string \<Rightarrow> token \<Rightarrow> bool" where
  "claim_not_in_future int_of_str now name tok =
     (case tok of
        Malformed s \<Rightarrow> False
      | JWS alg k payload \<Rightarrow>
          (case map_of payload name of
             None \<Rightarrow> True
           | Some v \<Rightarrow> (case py_int int_of_str v of IntValue t \<Rightarrow> t \<le> now | _ \<Rightarrow> False)))"

definition subject_absent :: "token \<Rightarrow> bool" where
  "subject_absent tok =
     (case tok of Malformed s \<Rightarrow> False | JWS alg k payload \<Rightarrow> map_of payload ''sub'' = None)"

definition library_accepts :: "(string \<Rightarrow> int option) \<Rightarrow> string \<Rightarrow> int \<Rightarrow> token \<Rightarrow> bool" where
  "library_accepts int_of_str key now tok =
     (case jwt_decode int_of_str tok key [''HS256''] now of Inl e \<Rightarrow> False | Inr payload \<Rightarrow> True)"

definition TokenExpired :: failure where
  "TokenExpired = HTTPException 401 ''Expired access token''"

definition TokenInvalid :: failure where
  "TokenInvalid = HTTPException 401 ''Invalid access token''"

definition AuthenticationRequired :: failure where
  "AuthenticationRequired = HTTPException 401 ''Authentication required''"

definition InvalidCredentials :: failure where
  "InvalidCredentials = HTTPException 401 ''Invalid email or password''"


definition commit_fails :: "db_result \<Rightarrow> bool" where
  "commit_fails r = (case r of DbNoConnection \<Rightarrow> False | DbRan c s \<Rightarrow> c)"


section \<open>A small deployment\<close>

text \<open>
  One user, \<open>a@x.com\<close> with id \<open>u1\<close> and role \<open>client\<close>, in a database that answers the
  three statements of the source; a database whose statements all fail on a connection
  that is alive; a database whose connection is lost, so that the statement and the
  commit both raise; a toy hashing context that accepts only digests it made itself; and
  an \<open>int\<close> that reads strings of ASCII digits. They serve to run the code on concrete
  inputs.
\<close>

definition demo_pool :: database where
  "demo_pool query params =
     (if query = SELECT_USER_BY_EMAIL then
        (if params = Some [PStr ''a@x.com'']
         then DbRan False
                (StmtRows [[PStr ''u1'', PStr ''a@x.com'', PStr ''argon2:Secret1'', PStr ''Ada'',
                            PStr ''Lovelace'', PStr ''555'', PStr ''client'']])
         else DbRan False (StmtRows []))
      else if query = SELECT_ROLE_BY_ID then
        (if params = Some [PStr ''u1''] then DbRan False (StmtRows [[PStr ''client'']])
         else DbRan False (StmtRows []))
      else if query = INSERT_USER then
        (case params of
           Some (e # rest) \<Rightarrow>
             if e = PStr ''a@x.com'' then DbRan False (StmtRows [])
             else DbRan False (StmtRows [[PStr ''u2'']])
         | _ \<Rightarrow> DbRan False StmtError)
      else DbRan False StmtError)"

definition broken_pool :: database where
  "broken_pool query params = DbRan False StmtError"


definition demo_hash :: "string \<Rightarrow> exc + string" where
  "demo_hash password = Inr (''argon2:'' @ password)"

definition demo_verify :: "string \<Rightarrow> pyval \<Rightarrow> exc + bool" where
  "demo_verify password hashed =
     (case hashed of
        PStr h \<Rightarrow> if take 7 h = ''argon2:'' then Inr (h = ''argon2:'' @ password)
                  else Inl (LibraryError ''UnknownHashError'')
      | _ \<Rightarrow> Inl TypeError)"

definition demo_app :: app where
  "demo_app = \<lparr>app_pool = demo_pool, app_pwd_hash = demo_hash, app_pwd_verify = demo_verify,
                app_JWT_KEY = ''k''\<rparr>"

definition broken_app :: app where
  "broken_app = \<lparr>app_pool = broken_pool, app_pwd_hash = demo_hash, app_pwd_verify = demo_verify,
                  app_JWT_KEY = ''k''\<rparr>"


definition demo_fx :: effects where
  "demo_fx = \<lparr>clock_iat = 100, clock_exp = 100, cache_time = 100, token_urlsafe = ''R1''\<rparr>"

definition demo_registration :: RegisterRequest where
  "demo_registration =
     \<lparr>reg_email = ''b@x.com'', reg_phone = ''556'', reg_password = ''Secret2'',
      reg_first_name = ''Bob'', reg_last_name = ''Byte'', reg_city = ''Turin'',
      reg_street = ''Via Po'', reg_state = ''TO'', reg_zip_code = ''10100''\<rparr>"

definition demo_cache :: redis where
  "demo_cache = Map.empty(''refresh:R1'' \<mapsto> (''u1'', 1209700), ''refresh:R9'' \<mapsto> (''u9'', 1209700))"

definition digits_int :: "string \<Rightarrow> int option" where
  "digits_int s =
     (if s \<noteq> [] \<and> list_all (\<lambda>c. 48 \<le> (of_char c :: nat) \<and> (of_char c :: nat) \<le> 57) s
      then Some (foldl (\<lambda>n c. 10 * n + (int (of_char c) - 48)) 0 s)
      else None)"


section \<open>Minting and validating access tokens\<close>

lemmas token_defs = decode_access_token_def create_access_token_def jwt_encode_def jwt_decode_def
  validate_iat_def validate_nbf_def validate_exp_def validate_aud_def
  dict_get_def ACCESS_TOKEN_EXPIRE_MINUTES_def

text \<open>
  C1 (as amended). For every non-empty subject id and every role, validating the token
  that \<open>create_access_token\<close> produced, at any clock reading from its issued-at
  instant on and before its expiry (the reading taken for \<open>exp\<close> plus 15 minutes),
  succeeds: with the default flags (\<open>id=True\<close>) \<open>decode_access_token\<close> returns the
  same subject id, and with \<open>id=False, role=True\<close> it returns the same role. One call
  returns one of the two.
\<close>

theorem mint_validate_roundtrip:
  assumes "subject_id \<noteq> []" and "now_iat \<le> now"
    and "now < now_exp + ACCESS_TOKEN_EXPIRE_MINUTES * 60"
  shows "decode_access_token int_of_str key now
           (create_access_token key now_iat now_exp (PStr subject_id) (PStr role)) True role_flag
         = Inr (PStr subject_id)
       \<and> decode_access_token int_of_str key now
           (create_access_token key now_iat now_exp (PStr subject_id) (PStr role)) False True
         = Inr (PStr role)"
  using assms by (simp add: token_defs)

theorem mint_validate_roundtrip_witness:
  "''u1'' \<noteq> [] \<and> (100::int) \<le> 100 \<and> (100::int) < 100 + ACCESS_TOKEN_EXPIRE_MINUTES * 60
   \<and> decode_access_token digits_int ''k'' 100
           (create_access_token ''k'' 100 100 (PStr ''u1'') (PStr ''client'')) True False
         = Inr (PStr ''u1'')
   \<and> decode_access_token digits_int ''k'' 100
           (create_access_token ''k'' 100 100 (PStr ''u1'') (PStr ''client'')) False True
         = Inr (PStr ''client'')"
proof -
  have h1: "''u1'' \<noteq> []" by simp
  have h2: "(100::int) \<le> 100" by simp
  have h3: "(100::int) < 100 + ACCESS_TOKEN_EXPIRE_MINUTES * 60"
    by (simp add: ACCESS_TOKEN_EXPIRE_MINUTES_def)
  show ?thesis
    using h1 h3 mint_validate_roundtrip [OF h1 h2 h3, of digits_int "''k''" "''client''" False]
    by simp
qed

text \<open>
  C1 as stated fails for the empty subject id: the token is minted, and validating it in
  the same second is refused as an invalid token, because \<open>decode_access_token\<close>
  rejects a subject that is not truthy.
\<close>

theorem mint_validate_empty_subject:
  "decode_access_token digits_int ''k'' 100
     (create_access_token ''k'' 100 100 (PStr []) (PStr ''client'')) True False
   = Inl (HTTPException 401 ''Invalid access token'')"
  by (simp add: token_defs)

lemma validate_exp_expired_iff:
  "(validate_exp int_of_str payload now = Some ExpiredSignatureError)
     = (case map_of payload ''exp'' of
          None \<Rightarrow> False
        | Some v \<Rightarrow> (case py_int int_of_str v of IntValue e \<Rightarrow> e \<le> now | _ \<Rightarrow> False))"
  by (simp add: validate_exp_def split: option.splits int_result.splits)

lemma validate_iat_not_expired: "validate_iat int_of_str payload now \<noteq> Some ExpiredSignatureError"
  by (simp add: validate_iat_def split: option.splits int_result.splits)

lemma validate_nbf_not_expired: "validate_nbf int_of_str payload now \<noteq> Some ExpiredSignatureError"
  by (simp add: validate_nbf_def split: option.splits int_result.splits)

lemma validate_aud_not_expired: "validate_aud payload \<noteq> Some ExpiredSignatureError"
  by (simp add: validate_aud_def split: option.splits)

lemma validate_iat_passes_iff:
  "(validate_iat int_of_str payload now = None)
     = (case map_of payload ''iat'' of
          None \<Rightarrow> True
        | Some v \<Rightarrow> (case py_int int_of_str v of IntValue t \<Rightarrow> t \<le> now | _ \<Rightarrow> False))"
  by (simp add: validate_iat_def split: option.splits int_result.splits)

lemma validate_nbf_passes_iff:
  "(validate_nbf int_of_str payload now = None)
     = (case map_of payload ''nbf'' of
          None \<Rightarrow> True
        | Some v \<Rightarrow> (case py_int int_of_str v of IntValue t \<Rightarrow> t \<le> now | _ \<Rightarrow> False))"
  by (simp add: validate_nbf_def split: option.splits int_result.splits)

lemma jwt_decode_expired_iff:
  "(jwt_decode int_of_str tok key [''HS256''] now = Inl ExpiredSignatureError)
     = (signature_verifies key tok \<and> claim_not_in_future int_of_str now ''iat'' tok
        \<and> claim_not_in_future int_of_str now ''nbf'' tok \<and> expiry_passed int_of_str now tok)"
proof (cases tok)
  case (Malformed s)
  then show ?thesis by (simp add: jwt_decode_def signature_verifies_def)
next
  case (JWS alg k payload)
  show ?thesis
  proof (cases "alg = ''HS256'' \<and> k = key")
    case False
    with JWS show ?thesis by (auto simp: jwt_decode_def signature_verifies_def)
  next
    case True
    have "(jwt_decode int_of_str tok key [''HS256''] now = Inl ExpiredSignatureError)
            = (validate_iat int_of_str payload now = None
               \<and> validate_nbf int_of_str payload now = None
               \<and> validate_exp int_of_str payload now = Some ExpiredSignatureError)"
      using JWS True validate_iat_not_expired [of int_of_str payload now]
        validate_nbf_not_expired [of int_of_str payload now] validate_aud_not_expired [of payload]
      by (auto simp: jwt_decode_def split: option.splits)
    then show ?thesis
      using JWS True
      by (simp add: validate_iat_passes_iff validate_nbf_passes_iff validate_exp_expired_iff
          signature_verifies_def claim_not_in_future_def expiry_passed_def)
  qed
qed

lemma decode_expired_iff:
  "(decode_access_token int_of_str key now tok i r = Inl TokenExpired)
     = (signature_verifies key tok \<and> claim_not_in_future int_of_str now ''iat'' tok
        \<and> claim_not_in_future int_of_str now ''nbf'' tok \<and> expiry_passed int_of_str now tok)"
proof -
  have "(decode_access_token int_of_str key now tok i r = Inl TokenExpired)
          = (jwt_decode int_of_str tok key [''HS256''] now = Inl ExpiredSignatureError)"
    by (auto simp: decode_access_token_def TokenExpired_def Let_def
        split: sum.splits jwt_error.splits)
  then show ?thesis by (simp add: jwt_decode_expired_iff)
qed

lemma decode_bad_signature:
  "\<not> signature_verifies key tok
     \<Longrightarrow> decode_access_token int_of_str key now tok i r = Inl TokenInvalid"
  by (auto simp: decode_access_token_def jwt_decode_def signature_verifies_def TokenInvalid_def
      split: token.splits)

lemma jwt_decode_payload:
  "jwt_decode int_of_str tok key algorithms now = Inr payload \<Longrightarrow> \<exists>alg k. tok = JWS alg k payload"
  by (cases tok) (auto simp: jwt_decode_def split: if_splits option.splits)

lemma decode_without_subject:
  "jwt_decode int_of_str tok key [''HS256''] now = Inr payload \<Longrightarrow> map_of payload ''sub'' = None
     \<Longrightarrow> decode_access_token int_of_str key now tok i r = Inl TokenInvalid"
  by (simp add: decode_access_token_def dict_get_def TokenInvalid_def)

lemma decode_library_error:
  "jwt_decode int_of_str tok key [''HS256''] now = Inl e
     \<Longrightarrow> isl (decode_access_token int_of_str key now tok i r)"
  by (cases e) (simp_all add: decode_access_token_def)

lemma decode_subject_absent:
  assumes "library_accepts int_of_str key now tok" and "subject_absent tok"
  shows "decode_access_token int_of_str key now tok i r = Inl TokenInvalid"
proof -
  from assms(1) obtain payload where p: "jwt_decode int_of_str tok key [''HS256''] now = Inr payload"
    by (auto simp: library_accepts_def split: sum.splits)
  then obtain alg k where "tok = JWS alg k payload"
    using jwt_decode_payload by blast
  with assms(2) have "map_of payload ''sub'' = None"
    by (simp add: subject_absent_def)
  with p show ?thesis by (rule decode_without_subject)
qed

lemma decode_subject_absent_fails:
  assumes "subject_absent tok"
  shows "isl (decode_access_token int_of_str key now tok i r)"
proof (cases "jwt_decode int_of_str tok key [''HS256''] now")
  case (Inl e)
  then show ?thesis by (rule decode_library_error)
next
  case (Inr payload)
  then have "library_accepts int_of_str key now tok"
    by (simp add: library_accepts_def)
  from decode_subject_absent [OF this assms] show ?thesis by simp
qed

text \<open>A numeric string for \<open>exp\<close> is read as the integer it denotes; \<open>null\<close> for
  \<open>exp\<close> makes \<open>int\<close> raise a \<open>TypeError\<close> that nothing catches.\<close>

lemma decode_numeric_string_exp:
  "decode_access_token digits_int ''k'' 1000
     (JWS ''HS256'' ''k'' [(''sub'', PStr ''u1''), (''exp'', PStr ''999'')]) True False
   = Inl (HTTPException 401 ''Expired access token'')"
  by (simp add: token_defs digits_int_def)

lemma decode_null_exp:
  "decode_access_token int_of_str ''k'' 1000
     (JWS ''HS256'' ''k'' [(''sub'', PStr ''u1''), (''exp'', PNone)]) True False
   = Inl (Unhandled TypeError)"
  by (simp add: token_defs)

text \<open>
  C2 (as amended). For every token, \<open>decode_access_token\<close> fails with the expired-token
  error exactly when the signature verifies, the \<open>iat\<close> and \<open>nbf\<close> claims, where
  present, are integers not in the future, and the expiry instant has passed. It fails
  with the invalid-token error when the signature does not verify, when the string is
  no well-formed signed token, and when the library accepts the token and the subject
  claim is absent; a token without subject is never accepted. The two errors are
  different values (both are status 401; the detail tells them apart).
\<close>

theorem validate_failure_kinds:
  "((decode_access_token int_of_str key now tok i r = Inl TokenExpired)
       = (signature_verifies key tok \<and> claim_not_in_future int_of_str now ''iat'' tok
          \<and> claim_not_in_future int_of_str now ''nbf'' tok \<and> expiry_passed int_of_str now tok))
   \<and> (\<not> signature_verifies key tok
        \<longrightarrow> decode_access_token int_of_str key now tok i r = Inl TokenInvalid)
   \<and> (decode_access_token int_of_str key now (Malformed s) i r = Inl TokenInvalid)
   \<and> (library_accepts int_of_str key now tok \<and> subject_absent tok
        \<longrightarrow> decode_access_token int_of_str key now tok i r = Inl TokenInvalid)
   \<and> (subject_absent tok \<longrightarrow> isl (decode_access_token int_of_str key now tok i r))
   \<and> TokenExpired \<noteq> TokenInvalid"
proof -
  have "\<not> signature_verifies key (Malformed s)"
    by (simp add: signature_verifies_def)
  then have "decode_access_token int_of_str key now (Malformed s) i r = Inl TokenInvalid"
    by (rule decode_bad_signature)
  moreover have "TokenExpired \<noteq> TokenInvalid"
    by (simp add: TokenExpired_def TokenInvalid_def)
  ultimately show ?thesis
    using decode_expired_iff [of int_of_str key now tok i r]
      decode_bad_signature [of key tok int_of_str now i r]
      decode_subject_absent [of int_of_str key now tok i r]
      decode_subject_absent_fails [of tok int_of_str key now i r]
    by blast
qed

theorem validate_failure_kinds_witness:
  "signature_verifies ''k'' (JWS ''HS256'' ''k'' [(''sub'', PStr ''u1''), (''exp'', PInt 999)])
   \<and> claim_not_in_future digits_int 1000 ''iat''
        (JWS ''HS256'' ''k'' [(''sub'', PStr ''u1''), (''exp'', PInt 999)])
   \<and> claim_not_in_future digits_int 1000 ''nbf''
        (JWS ''HS256'' ''k'' [(''sub'', PStr ''u1''), (''exp'', PInt 999)])
   \<and> expiry_passed digits_int 1000 (JWS ''HS256'' ''k'' [(''sub'', PStr ''u1''), (''exp'', PInt 999)])
   \<and> decode_access_token digits_int ''k'' 1000
        (JWS ''HS256'' ''k'' [(''sub'', PStr ''u1''), (''exp'', PInt 999)]) True False
       = Inl (HTTPException 401 ''Expired access token'')
   \<and> \<not> signature_verifies ''k'' (JWS ''HS256'' ''forged'' [(''sub'', PStr ''u1''), (''exp'', PInt 2000)])
   \<and> decode_access_token digits_int ''k'' 1000
        (JWS ''HS256'' ''forged'' [(''sub'', PStr ''u1''), (''exp'', PInt 2000)]) True False
       = Inl (HTTPException 401 ''Invalid access token'')
   \<and> library_accepts digits_int ''k'' 1000 (JWS ''HS256'' ''k'' [(''exp'', PInt 2000)])
   \<and> subject_absent (JWS ''HS256'' ''k'' [(''exp'', PInt 2000)])
   \<and> decode_access_token digits_int ''k'' 1000 (JWS ''HS256'' ''k'' [(''exp'', PInt 2000)]) True False
       = Inl (HTTPException 401 ''Invalid access token'')"
  using
    validate_failure_kinds [of digits_int "''k''" 1000
      "JWS ''HS256'' ''k'' [(''sub'', PStr ''u1''), (''exp'', PInt 999)]" True False]
    validate_failure_kinds [of digits_int "''k''" 1000
      "JWS ''HS256'' ''forged'' [(''sub'', PStr ''u1''), (''exp'', PInt 2000)]" True False]
    validate_failure_kinds [of digits_int "''k''" 1000 "JWS ''HS256'' ''k'' [(''exp'', PInt 2000)]"
      True False]
  by (simp add: signature_verifies_def expiry_passed_def claim_not_in_future_def
      subject_absent_def library_accepts_def jwt_decode_def validate_iat_def validate_nbf_def
      validate_exp_def validate_aud_def TokenExpired_def TokenInvalid_def)

text \<open>
  C2 as stated fails: for a token signed with the service's key whose expiry (second
  999) has passed at second 1000 but whose \<open>iat\<close> lies in the future, the library
  raises its not-yet-valid error before it looks at the expiry, and the answer is the
  invalid-token error, not the expired-token one.
\<close>

theorem expired_token_with_future_iat_is_invalid:
  "signature_verifies ''k''
     (JWS ''HS256'' ''k'' [(''sub'', PStr ''u1''), (''iat'', PInt 5000), (''exp'', PInt 999)])
   \<and> expiry_passed digits_int 1000
     (JWS ''HS256'' ''k'' [(''sub'', PStr ''u1''), (''iat'', PInt 5000), (''exp'', PInt 999)])
   \<and> decode_access_token digits_int ''k'' 1000
     (JWS ''HS256'' ''k'' [(''sub'', PStr ''u1''), (''iat'', PInt 5000), (''exp'', PInt 999)])
     True False
     = Inl (HTTPException 401 ''Invalid access token'')"
  by (simp add: token_defs signature_verifies_def expiry_passed_def)

text \<open>
  C8 (as amended). For every subject id and role, \<open>create_access_token\<close> produces a token
  signed with the key under HS256 whose payload holds exactly five claims: the subject
  id, the role, the issued-at instant (the first clock reading), the expiry instant,
  which is the second clock reading plus 15 minutes, and the type \<open>access\<close>. The expiry
  is the issued-at instant plus 15 minutes whenever the two readings agree.
\<close>

theorem create_access_token_payload:
  "create_access_token key now_iat now_exp (PStr subject_id) (PStr role)
     = JWS ''HS256'' key
         [(''sub'', PStr subject_id),
          (''role'', PStr role),
          (''iat'', PInt now_iat),
          (''exp'', PInt (now_exp + 15 * 60)),
          (''type'', PStr ''access'')]"
  by (simp add: create_access_token_def jwt_encode_def ACCESS_TOKEN_EXPIRE_MINUTES_def)

text \<open>
  C8 as stated fails when the clock moves between the two readings: issued at second 100
  with the expiry computed at second 101, the token expires 901 seconds after its
  issued-at instant.
\<close>

theorem create_access_token_exp_not_iat_plus_15min:
  "dict_get (jws_payload (create_access_token ''k'' 100 101 (PStr ''u1'') (PStr ''client''))) ''iat''
     = PInt 100
   \<and> dict_get (jws_payload (create_access_token ''k'' 100 101 (PStr ''u1'') (PStr ''client''))) ''exp''
     \<noteq> PInt (100 + 15 * 60)"
  by (simp add: token_defs)


section \<open>Login\<close>

lemmas query_defs = safe_query_def safe_query_try_def execute_def

lemma login_unknown_email:
  "check_user_by_email a (login_email c) = Inr None
     \<Longrightarrow> login a fx cache c = (Inl InvalidCredentials, cache)"
  by (simp add: login_def InvalidCredentials_def)

lemma login_wrong_password:
  "check_user_by_email a (login_email c) = Inr (Some u)
     \<Longrightarrow> verify_password a (login_password c) (user_pass_hash u) = Inr False
     \<Longrightarrow> login a fx cache c = (Inl InvalidCredentials, cache)"
  by (simp add: login_def InvalidCredentials_def)

lemma login_known_email_empty_password:
  "check_user_by_email a (login_email c) = Inr (Some u) \<Longrightarrow> login_password c = []
     \<Longrightarrow> login a fx cache c = (Inl (Unhandled AuthValidationError), cache)"
  by (simp add: login_def verify_password_def)

lemma demo_ghost: "check_user_by_email demo_app ''ghost@x.com'' = Inr None"
  by (simp add: check_user_by_email_def query_defs demo_app_def demo_pool_def)

lemma demo_ada:
  "check_user_by_email demo_app ''a@x.com''
     = Inr (Some \<lparr>user_id = PStr ''u1'', user_email = PStr ''a@x.com'',
                  user_pass_hash = PStr ''argon2:Secret1'', user_first_name = PStr ''Ada'',
                  user_last_name = PStr ''Lovelace'', user_phone = PStr ''555'',
                  user_role = PStr ''client''\<rparr>)"
  by (simp add: check_user_by_email_def query_defs demo_app_def demo_pool_def)

lemma demo_verify_nope: "verify_password demo_app ''nope'' (PStr ''argon2:Secret1'') = Inr False"
  by (simp add: verify_password_def demo_app_def demo_verify_def)

text \<open>With a password that is not empty, the unknown email and the wrong password of a
  known email get the same answer.\<close>

lemma login_wrong_password_demo:
  "fst (login demo_app demo_fx demo_cache \<lparr>login_email = ''a@x.com'', login_password = ''nope''\<rparr>)
     = fst (login demo_app demo_fx demo_cache \<lparr>login_email = ''ghost@x.com'', login_password = ''nope''\<rparr>)"
  by (simp add: login_def demo_ada demo_ghost demo_verify_nope)

text \<open>
  C3 fails on the code. With the empty password, which matches no stored digest, login
  with an email that matches no user is answered with the 401 for invalid credentials,
  while login with the email of a user leaves the route as an uncaught
  \<open>AuthValidationError\<close>, raised by \<open>verify_password\<close> and answered with status 500:
  the two causes can be told apart.
\<close>

theorem login_empty_password_reveals_known_email:
  "fst (login demo_app demo_fx demo_cache \<lparr>login_email = ''ghost@x.com'', login_password = []\<rparr>)
     = Inl (HTTPException 401 ''Invalid email or password'')
   \<and> fst (login demo_app demo_fx demo_cache \<lparr>login_email = ''a@x.com'', login_password = []\<rparr>)
     = Inl (Unhandled AuthValidationError)
   \<and> status_code (Unhandled AuthValidationError) = 500"
proof -
  have "login demo_app demo_fx demo_cache \<lparr>login_email = ''ghost@x.com'', login_password = []\<rparr>
          = (Inl InvalidCredentials, demo_cache)"
    by (rule login_unknown_email) (simp add: demo_ghost)
  moreover have "login demo_app demo_fx demo_cache \<lparr>login_email = ''a@x.com'', login_password = []\<rparr>
          = (Inl (Unhandled AuthValidationError), demo_cache)"
    by (rule login_known_email_empty_password) (simp_all add: demo_ada)
  ultimately show ?thesis by (simp add: InvalidCredentials_def)
qed


section \<open>Refresh\<close>

text \<open>Called without \<open>insert\<close>, as \<open>refresh\<close> and \<open>check_user_by_email\<close> call it,
  \<open>safe_query\<close> always returns.\<close>

lemma safe_query_without_insert:
  "safe_query pool query params fetch False
     = Inr (case execute pool query params of
              DbNoConnection \<Rightarrow> PStr ''error in query execution''
            | DbRan c r \<Rightarrow> safe_query_try r fetch)"
  by (simp add: safe_query_def split: db_result.splits)

text \<open>
  C4. \<open>refresh\<close> fails with 401 \<open>Authentication required\<close> when the cookie is absent,
  in the same way when the token resolves to no user id in the store, and in the same
  way when it resolves but the role lookup returns no row.
\<close>

theorem refresh_authentication_required:
  "fst (refresh a fx cache None) = Inl AuthenticationRequired
   \<and> (get_id_from_token cache (cache_time fx) t = None
        \<longrightarrow> fst (refresh a fx cache (Some t)) = Inl AuthenticationRequired)
   \<and> (get_id_from_token cache (cache_time fx) t = Some u
        \<and> app_pool a SELECT_ROLE_BY_ID (Some [PStr u]) = DbRan c (StmtRows [])
        \<longrightarrow> fst (refresh a fx cache (Some t)) = Inl AuthenticationRequired)
   \<and> AuthenticationRequired = HTTPException 401 ''Authentication required''"
  by (simp add: refresh_def AuthenticationRequired_def safe_query_without_insert
      safe_query_try_def execute_def Let_def)

lemma demo_R2_unknown: "get_id_from_token demo_cache (cache_time demo_fx) ''R2'' = None"
  by (simp add: get_id_from_token_def redis_get_def demo_cache_def demo_fx_def)

lemma demo_R9_known: "get_id_from_token demo_cache (cache_time demo_fx) ''R9'' = Some ''u9''"
  by (simp add: get_id_from_token_def redis_get_def demo_cache_def demo_fx_def)

lemma demo_u9_no_role:
  "app_pool demo_app SELECT_ROLE_BY_ID (Some [PStr ''u9'']) = DbRan False (StmtRows [])"
  by (simp add: demo_app_def demo_pool_def SELECT_ROLE_BY_ID_def SELECT_USER_BY_EMAIL_def)

theorem refresh_authentication_required_witness:
  "fst (refresh demo_app demo_fx demo_cache None) = Inl (HTTPException 401 ''Authentication required'')
   \<and> get_id_from_token demo_cache (cache_time demo_fx) ''R2'' = None
   \<and> fst (refresh demo_app demo_fx demo_cache (Some ''R2''))
       = Inl (HTTPException 401 ''Authentication required'')
   \<and> get_id_from_token demo_cache (cache_time demo_fx) ''R9'' = Some ''u9''
   \<and> app_pool demo_app SELECT_ROLE_BY_ID (Some [PStr ''u9'']) = DbRan False (StmtRows [])
   \<and> fst (refresh demo_app demo_fx demo_cache (Some ''R9''))
       = Inl (HTTPException 401 ''Authentication required'')"
proof -
  note a = refresh_authentication_required [of demo_app demo_fx demo_cache "''R2''" "''u9''" False]
  note b = refresh_authentication_required [of demo_app demo_fx demo_cache "''R9''" "''u9''" False]
  have e: "AuthenticationRequired = HTTPException 401 ''Authentication required''"
    using a by blast
  have "fst (refresh demo_app demo_fx demo_cache None) = Inl AuthenticationRequired"
    using a by blast
  moreover have "fst (refresh demo_app demo_fx demo_cache (Some ''R2'')) = Inl AuthenticationRequired"
    using a demo_R2_unknown by blast
  moreover have "fst (refresh demo_app demo_fx demo_cache (Some ''R9'')) = Inl AuthenticationRequired"
    using b demo_R9_known demo_u9_no_role by blast
  ultimately show ?thesis
    using demo_R2_unknown demo_R9_known demo_u9_no_role unfolding e by blast
qed

lemma refresh_frame: "snd (refresh a fx cache c) = cache"
  by (simp add: refresh_def safe_query_without_insert Let_def split: option.splits)

lemma refresh_success_iff:
  "(\<exists>body. fst (refresh a fx cache (Some t)) = Inr body)
     = (t \<noteq> [] \<and> (\<exists>uid expires role. cache (''refresh:'' @ t) = Some (uid, expires)
          \<and> cache_time fx < expires \<and> uid \<noteq> []
          \<and> safe_query (app_pool a) SELECT_ROLE_BY_ID (Some [PStr uid]) (Some ''one'') False
              = Inr role
          \<and> truthy role))"
  by (auto simp: refresh_def get_id_from_token_def redis_get_def safe_query_without_insert Let_def
      split: option.splits if_splits)

lemma refresh_live:
  assumes "t \<noteq> []" and "cache (''refresh:'' @ t) = Some (uid, expires)"
    and "cache_time fx < expires" and "uid \<noteq> []"
    and "safe_query (app_pool a) SELECT_ROLE_BY_ID (Some [PStr uid]) (Some ''one'') False = Inr role"
    and "truthy role"
  shows "fst (refresh a fx cache (Some t))
     = Inr \<lparr>refresh_access_token =
              create_access_token (app_JWT_KEY a) (clock_iat fx) (clock_exp fx) (PStr uid) role,
            refresh_token_type = ''bearer''\<rparr>"
  using assms by (simp add: refresh_def get_id_from_token_def redis_get_def Let_def)

lemma refresh_lapsed:
  assumes "cache (''refresh:'' @ t) = Some (uid, expires)" and "expires \<le> cache_time fx"
  shows "fst (refresh a fx cache (Some t)) = Inl AuthenticationRequired"
  using assms
  by (simp add: refresh_def get_id_from_token_def redis_get_def safe_query_without_insert Let_def
      AuthenticationRequired_def)

lemma refresh_after_logout:
  "fst (refresh a fx (snd (snd (logout cache (Some t)))) (Some t)) = Inl AuthenticationRequired"
  by (simp add: refresh_def logout_def redis_delete_def get_id_from_token_def redis_get_def
      safe_query_without_insert Let_def AuthenticationRequired_def)

text \<open>
  C7. A successful \<open>refresh\<close> returns the session store as it found it: it writes,
  re-persists, rotates and deletes nothing. The token's entry is therefore still there:
  with the same user database, every later \<open>refresh\<close> with the same cookie at a store
  time before the entry's expiry succeeds again, for the same user id; once the expiry
  is reached it fails with 401 \<open>Authentication required\<close>, and so it does after
  \<open>logout\<close> with that cookie.
\<close>

theorem refresh_leaves_store_unchanged:
  assumes "fst (refresh a fx cache (Some t)) = Inr body"
  shows "snd (refresh a fx cache (Some t)) = cache
     \<and> (\<exists>uid expires role. cache (''refresh:'' @ t) = Some (uid, expires)
          \<and> cache_time fx < expires
          \<and> safe_query (app_pool a) SELECT_ROLE_BY_ID (Some [PStr uid]) (Some ''one'') False
              = Inr role
          \<and> (\<forall>fx'. cache_time fx' < expires \<longrightarrow>
                fst (refresh a fx' (snd (refresh a fx cache (Some t))) (Some t))
                  = Inr \<lparr>refresh_access_token =
                           create_access_token (app_JWT_KEY a) (clock_iat fx') (clock_exp fx')
                             (PStr uid) role,
                         refresh_token_type = ''bearer''\<rparr>)
          \<and> (\<forall>fx'. expires \<le> cache_time fx' \<longrightarrow>
                fst (refresh a fx' (snd (refresh a fx cache (Some t))) (Some t))
                  = Inl AuthenticationRequired))
     \<and> (\<forall>fx'. fst (refresh a fx'
                     (snd (snd (logout (snd (refresh a fx cache (Some t))) (Some t)))) (Some t))
                  = Inl AuthenticationRequired)"
proof -
  from assms have "\<exists>body. fst (refresh a fx cache (Some t)) = Inr body" by blast
  then obtain uid expires role where
    t: "t \<noteq> []" and c: "cache (''refresh:'' @ t) = Some (uid, expires)"
    and live: "cache_time fx < expires" and u: "uid \<noteq> []"
    and q: "safe_query (app_pool a) SELECT_ROLE_BY_ID (Some [PStr uid]) (Some ''one'') False
              = Inr role"
    and role: "truthy role"
    unfolding refresh_success_iff by blast
  have again: "fst (refresh a fx' cache (Some t))
                  = Inr \<lparr>refresh_access_token =
                           create_access_token (app_JWT_KEY a) (clock_iat fx') (clock_exp fx')
                             (PStr uid) role,
                         refresh_token_type = ''bearer''\<rparr>"
    if "cache_time fx' < expires" for fx'
    using t c that u q role by (rule refresh_live)
  have lapsed: "fst (refresh a fx' cache (Some t)) = Inl AuthenticationRequired"
    if "expires \<le> cache_time fx'" for fx'
    using c that by (rule refresh_lapsed)
  show ?thesis
    unfolding refresh_frame using c live q again lapsed refresh_after_logout by blast
qed

lemma demo_role_u1:
  "safe_query (app_pool demo_app) SELECT_ROLE_BY_ID (Some [PStr ''u1'']) (Some ''one'') False
     = Inr (PTuple [PStr ''client''])"
  by (simp add: query_defs demo_app_def demo_pool_def SELECT_ROLE_BY_ID_def
      SELECT_USER_BY_EMAIL_def)

lemma demo_refresh_R1:
  "fst (refresh demo_app demo_fx demo_cache (Some ''R1''))
     = Inr \<lparr>refresh_access_token =
              JWS ''HS256'' ''k'' [(''sub'', PStr ''u1''), (''role'', PList [PStr ''client'']),
                                   (''iat'', PInt 100), (''exp'', PInt 1000),
                                   (''type'', PStr ''access'')],
            refresh_token_type = ''bearer''\<rparr>"
  by (simp add: refresh_def get_id_from_token_def redis_get_def demo_cache_def demo_role_u1
      create_access_token_def jwt_encode_def ACCESS_TOKEN_EXPIRE_MINUTES_def)
     (simp add: demo_fx_def demo_app_def)

theorem refresh_leaves_store_unchanged_witness:
  "fst (refresh demo_app demo_fx demo_cache (Some ''R1''))
     = Inr \<lparr>refresh_access_token =
              JWS ''HS256'' ''k'' [(''sub'', PStr ''u1''), (''role'', PList [PStr ''client'']),
                                   (''iat'', PInt 100), (''exp'', PInt 1000),
                                   (''type'', PStr ''access'')],
            refresh_token_type = ''bearer''\<rparr>
   \<and> snd (refresh demo_app demo_fx demo_cache (Some ''R1'')) = demo_cache
   \<and> fst (refresh demo_app (demo_fx\<lparr>cache_time := 5000\<rparr>)
            (snd (refresh demo_app demo_fx demo_cache (Some ''R1''))) (Some ''R1''))
       = Inr \<lparr>refresh_access_token =
                create_access_token ''k'' 100 100 (PStr ''u1'') (PTuple [PStr ''client'']),
              refresh_token_type = ''bearer''\<rparr>
   \<and> fst (refresh demo_app (demo_fx\<lparr>cache_time := 1209700\<rparr>)
            (snd (refresh demo_app demo_fx demo_cache (Some ''R1''))) (Some ''R1''))
       = Inl (HTTPException 401 ''Authentication required'')
   \<and> fst (refresh demo_app demo_fx
            (snd (snd (logout (snd (refresh demo_app demo_fx demo_cache (Some ''R1''))) (Some ''R1''))))
            (Some ''R1''))
       = Inl (HTTPException 401 ''Authentication required'')"
proof -
  note w = refresh_leaves_store_unchanged [OF demo_refresh_R1]
  from w obtain uid expires role where
    c: "demo_cache (''refresh:'' @ ''R1'') = Some (uid, expires)"
    and q: "safe_query (app_pool demo_app) SELECT_ROLE_BY_ID (Some [PStr uid]) (Some ''one'') False
              = Inr role"
    and again: "\<And>fx'. cache_time fx' < expires \<Longrightarrow>
                fst (refresh demo_app fx' (snd (refresh demo_app demo_fx demo_cache (Some ''R1'')))
                       (Some ''R1''))
                  = Inr \<lparr>refresh_access_token =
                           create_access_token (app_JWT_KEY demo_app) (clock_iat fx') (clock_exp fx')
                             (PStr uid) role,
                         refresh_token_type = ''bearer''\<rparr>"
    and lapsed: "\<And>fx'. expires \<le> cache_time fx' \<Longrightarrow>
                fst (refresh demo_app fx' (snd (refresh demo_app demo_fx demo_cache (Some ''R1'')))
                       (Some ''R1''))
                  = Inl AuthenticationRequired"
    by blast
  from c have uid: "uid = ''u1''" and expires: "expires = 1209700"
    by (simp_all add: demo_cache_def)
  from q have role: "role = PTuple [PStr ''client'']"
    unfolding uid demo_role_u1 by simp
  have 1: "snd (refresh demo_app demo_fx demo_cache (Some ''R1'')) = demo_cache"
    using w by blast
  have 2: "fst (refresh demo_app (demo_fx\<lparr>cache_time := 5000\<rparr>)
            (snd (refresh demo_app demo_fx demo_cache (Some ''R1''))) (Some ''R1''))
       = Inr \<lparr>refresh_access_token =
                create_access_token ''k'' 100 100 (PStr ''u1'') (PTuple [PStr ''client'']),
              refresh_token_type = ''bearer''\<rparr>"
    using again [of "demo_fx\<lparr>cache_time := 5000\<rparr>"]
    unfolding uid expires role by (simp add: demo_fx_def demo_app_def)
  have 3: "fst (refresh demo_app (demo_fx\<lparr>cache_time := 1209700\<rparr>)
            (snd (refresh demo_app demo_fx demo_cache (Some ''R1''))) (Some ''R1''))
       = Inl (HTTPException 401 ''Authentication required'')"
    using lapsed [of "demo_fx\<lparr>cache_time := 1209700\<rparr>"]
    unfolding expires by (simp add: AuthenticationRequired_def)
  have 4: "fst (refresh demo_app demo_fx
            (snd (snd (logout (snd (refresh demo_app demo_fx demo_cache (Some ''R1''))) (Some ''R1''))))
            (Some ''R1''))
       = Inl (HTTPException 401 ''Authentication required'')"
    using w unfolding AuthenticationRequired_def by blast
  show ?thesis using demo_refresh_R1 1 2 3 4 by blast
qed


section \<open>Database failures\<close>


lemma safe_query_commit_raises:
  "ins \<Longrightarrow> commit_fails (execute pool query params)
     \<Longrightarrow> safe_query pool query params fetch ins = Inl InterfaceError"
  by (auto simp: safe_query_def commit_fails_def split: db_result.splits)

lemma safe_query_fetch_without_result:
  "execute pool query params = DbRan False StmtNoResult
     \<Longrightarrow> fetch = Some ''one'' \<or> fetch = Some ''all''
     \<Longrightarrow> safe_query pool query params fetch ins = Inr (PStr ''error in query execution'')"
  by (auto simp: safe_query_def safe_query_try_def)




lemma broken_app_pool: "app_pool broken_app query params = DbRan False StmtError"
  by (simp add: broken_app_def broken_pool_def)








section \<open>Registration\<close>

lemma register_empty_password:
  "reg_password c = [] \<Longrightarrow> register a c = Inl (HTTPException 500 ''Internal server error'')"
  by (simp add: register_def create_user_def hash_password_def)

lemma create_user_args:
  "hash_password a (reg_password c) = Inr h \<Longrightarrow>
   create_user a c =
     (case safe_query (app_pool a) INSERT_USER
             (Some [PStr (reg_email c), PStr (reg_phone c), PStr h, PStr (reg_first_name c),
                    PStr (reg_last_name c), PStr (reg_street c), PStr (reg_city c),
                    PStr (reg_state c), PStr (reg_zip_code c)]) (Some ''one'') True of
        Inl e \<Rightarrow> Inl DatabaseOperationError
      | Inr row \<Rightarrow>
          if \<not> truthy row then Inl UserAlreadyExistsError
          else bind_exc (subscript row 0) (\<lambda>r0. Inr \<lparr>created = True, created_user_id = r0\<rparr>))"
  by (simp add: create_user_def)

text \<open>The part of C5 that holds: an insert that returns no row is answered with 409.\<close>

lemma register_conflict:
  assumes "hash_password a (reg_password c) = Inr h"
    and "app_pool a INSERT_USER
           (Some [PStr (reg_email c), PStr (reg_phone c), PStr h, PStr (reg_first_name c),
                  PStr (reg_last_name c), PStr (reg_street c), PStr (reg_city c),
                  PStr (reg_state c), PStr (reg_zip_code c)]) = DbRan False (StmtRows [])"
  shows "register a c = Inl (HTTPException 409 ''Email already registered'')"
  using assms by (simp add: register_def create_user_args query_defs)

lemma register_database_failure:
  assumes "hash_password a (reg_password c) = Inr h"
    and "app_pool a INSERT_USER
           (Some [PStr (reg_email c), PStr (reg_phone c), PStr h, PStr (reg_first_name c),
                  PStr (reg_last_name c), PStr (reg_street c), PStr (reg_city c),
                  PStr (reg_state c), PStr (reg_zip_code c)]) = DbRan False StmtError"
  shows "create_user a c = Inr \<lparr>created = True, created_user_id = PStr ''e''\<rparr>"
    and "register a c = Inr ''user created''"
  using assms by (simp_all add: register_def create_user_args query_defs)

text \<open>Only when the commit itself raises, on a lost connection, does the failure reach
  the \<open>except\<close> clause of \<open>create_user\<close>.\<close>

lemma register_lost_connection:
  assumes "hash_password a (reg_password c) = Inr h"
    and "app_pool a INSERT_USER
           (Some [PStr (reg_email c), PStr (reg_phone c), PStr h, PStr (reg_first_name c),
                  PStr (reg_last_name c), PStr (reg_street c), PStr (reg_city c),
                  PStr (reg_state c), PStr (reg_zip_code c)]) = DbRan True r"
  shows "register a c = Inl (HTTPException 500 ''Internal server error'')"
  using assms by (simp add: register_def create_user_args safe_query_def execute_def)

lemma demo_hash_Secret2:
  "hash_password broken_app (reg_password demo_registration) = Inr ''argon2:Secret2''"
  by (simp add: hash_password_def broken_app_def demo_hash_def demo_registration_def)

text \<open>
  C5 fails on the code in two places. A registration with the empty password is refused
  before any statement runs, but as \<open>DatabaseOperationError\<close>, answered with 500: the
  \<open>AuthValidationError\<close> of \<open>hash_password\<close> is raised inside the \<open>try\<close> of
  \<open>create_user\<close>. And when the statement fails on a connection that is alive,
  \<open>safe_query\<close> returns its sentinel string instead of raising, so \<open>create_user\<close>
  reports a created user whose id is the letter \<open>e\<close>, and \<open>register\<close> answers
  \<open>user created\<close>.
\<close>

theorem register_misreports_failures:
  "register demo_app (demo_registration\<lparr>reg_password := []\<rparr>)
     = Inl (HTTPException 500 ''Internal server error'')
   \<and> create_user demo_app (demo_registration\<lparr>reg_password := []\<rparr>) = Inl DatabaseOperationError
   \<and> register broken_app demo_registration = Inr ''user created''
   \<and> create_user broken_app demo_registration
       = Inr \<lparr>created = True, created_user_id = PStr ''e''\<rparr>"
proof -
  have "register demo_app (demo_registration\<lparr>reg_password := []\<rparr>)
          = Inl (HTTPException 500 ''Internal server error'')"
    by (rule register_empty_password) simp
  moreover have "create_user demo_app (demo_registration\<lparr>reg_password := []\<rparr>)
          = Inl DatabaseOperationError"
    by (simp add: create_user_def hash_password_def)
  moreover note register_database_failure [OF demo_hash_Secret2 broken_app_pool]
  ultimately show ?thesis by simp
qed


section \<open>Storing refresh tokens\<close>

lemma store_refresh_token_writes:
  "store_refresh_token cache now t (PStr uid)
     = Inr (cache(''refresh:'' @ t \<mapsto> (uid, now + 60 * 60 * 24 * 14)))"
  by (simp add: store_refresh_token_def redis_setex_def REFRESH_TOKEN_TTL_SECONDS_def)

lemma store_refresh_token_root_cases:
  "store_refresh_token_root cache now t (PStr uid)
     = (if truthy_opt (redis_get cache now (''refresh:'' @ t)) then Inr cache
        else Inr (cache(''refresh:'' @ t \<mapsto> (uid, now + 60 * 60 * 24 * 14))))"
  by (simp add: store_refresh_token_root_def redis_setex_def REFRESH_TOKEN_TTL_SECONDS_def)

lemma upd_same_iff: "(m(k \<mapsto> v) = m) = (m k = Some v)"
  by (metis fun_upd_same fun_upd_triv)

lemma upd_same_iff2: "(m = m(k \<mapsto> v)) = (m k = Some v)"
  by (metis fun_upd_same fun_upd_triv)

text \<open>
  C6 (as amended). Whenever the key \<open>refresh:<token>\<close> is absent beforehand (never
  written, deleted or expired), the two implementations of \<open>store_refresh_token\<close>
  leave the same store. The unconditional one always writes \<open>refresh:<token>\<close> with
  the user id and an expiry 14 days (1209600 seconds) ahead. The two leave different
  stores exactly when the key holds a live, non-empty value and its entry is not already
  the one being written.
\<close>

theorem store_refresh_token_versions:
  "(redis_get cache now (''refresh:'' @ t) = None
      \<longrightarrow> store_refresh_token_root cache now t (PStr uid) = store_refresh_token cache now t (PStr uid))
   \<and> store_refresh_token cache now t (PStr uid)
       = Inr (cache(''refresh:'' @ t \<mapsto> (uid, now + 60 * 60 * 24 * 14)))
   \<and> ((store_refresh_token_root cache now t (PStr uid) \<noteq> store_refresh_token cache now t (PStr uid))
        = (truthy_opt (redis_get cache now (''refresh:'' @ t))
           \<and> cache (''refresh:'' @ t) \<noteq> Some (uid, now + 60 * 60 * 24 * 14)))"
  by (simp add: store_refresh_token_writes store_refresh_token_root_cases upd_same_iff2)

lemma demo_get_R2: "redis_get demo_cache 100 (''refresh:'' @ ''R2'') = None"
  by (simp add: redis_get_def demo_cache_def)

lemma demo_get_R1: "redis_get demo_cache 100 ''refresh:R1'' = Some ''u1''"
  by (simp add: redis_get_def demo_cache_def)

lemma demo_R1: "demo_cache ''refresh:R1'' = Some (''u1'', 1209700)"
  by (simp add: demo_cache_def)

theorem store_refresh_token_versions_witness:
  "redis_get demo_cache 100 (''refresh:'' @ ''R2'') = None
   \<and> store_refresh_token_root demo_cache 100 ''R2'' (PStr ''u1'')
       = store_refresh_token demo_cache 100 ''R2'' (PStr ''u1'')
   \<and> store_refresh_token demo_cache 100 ''R2'' (PStr ''u1'')
       = Inr (demo_cache(''refresh:R2'' \<mapsto> (''u1'', 1209700)))"
proof -
  note w = store_refresh_token_versions [of demo_cache 100 "''R2''" "''u1''"]
  from w demo_get_R2 have "store_refresh_token_root demo_cache 100 ''R2'' (PStr ''u1'')
       = store_refresh_token demo_cache 100 ''R2'' (PStr ''u1'')" by blast
  moreover from w have "store_refresh_token demo_cache 100 ''R2'' (PStr ''u1'')
       = Inr (demo_cache(''refresh:R2'' \<mapsto> (''u1'', 1209700)))" by simp
  ultimately show ?thesis using demo_get_R2 by blast
qed

text \<open>
  C6 as stated fails: a mapping for the token exists, and the two implementations still
  leave the same store, because the entry is already the one the unconditional write
  puts there (same user id, same expiry).
\<close>

theorem store_refresh_token_same_on_identical_mapping:
  "redis_get demo_cache 100 ''refresh:R1'' = Some ''u1''
   \<and> store_refresh_token_root demo_cache 100 ''R1'' (PStr ''u1'')
       = store_refresh_token demo_cache 100 ''R1'' (PStr ''u1'')"
proof -
  have "store_refresh_token demo_cache 100 ''R1'' (PStr ''u1'') = Inr demo_cache"
    using demo_R1 by (simp add: store_refresh_token_writes upd_same_iff)
  moreover have "store_refresh_token_root demo_cache 100 ''R1'' (PStr ''u1'') = Inr demo_cache"
    using demo_get_R1 by (simp add: store_refresh_token_root_cases)
  ultimately show ?thesis using demo_get_R1 by simp
qed


section \<open>Start-up\<close>

lemma jwt_auth_init_key: "jwt_auth_init env = Inr k \<Longrightarrow> env = Some k \<and> k \<noteq> []"
  by (simp add: jwt_auth_init_def split: option.splits if_splits)

text \<open>
  C9 fails on the code. src/jwt\_auth/jwt\_auth.py refuses to load without a key, but
  src/jwt\_auth.py, which signs and verifies tokens as well, loads with the key missing
  or empty: with the empty key it mints a token signed with the empty key, and with no
  key minting fails only when it is called, with a \<open>TypeError\<close>.
\<close>

theorem root_module_loads_without_key:
  "jwt_auth_init None = Inl TokenConfigurationError
   \<and> jwt_auth_init (Some []) = Inl TokenConfigurationError
   \<and> jwt_auth_root_init None = Inr None
   \<and> jwt_auth_root_init (Some []) = Inr (Some [])
   \<and> create_access_token_root None 100 100 (PStr ''u1'') = Inl TypeError
   \<and> create_access_token_root (Some []) 100 100 (PStr ''u1'')
       = Inr (JWS ''HS256'' [] [(''sub'', PStr ''u1''), (''iat'', PInt 100), (''exp'', PInt 1000),
                                 (''type'', PStr ''access'')])"
  by (simp add: jwt_auth_init_def jwt_auth_root_init_def create_access_token_root_def
      jwt_encode_def ACCESS_TOKEN_EXPIRE_MINUTES_def)

end
